theory Spec2Isabelle
  imports Main "HOL-Library.Extended_Nat"
begin

section \<open>JavaScript values\<close>

text \<open>
  The gateway hands back \<^verbatim>\<open>json.data\<close>, typed \<^verbatim>\<open>any\<close>: the type arguments
  the routes pass to \<^verbatim>\<open>query<...>\<close> are unchecked casts. The values are therefore
  modelled as untyped JSON, with \<^verbatim>\<open>undefined\<close> kept apart from \<^verbatim>\<open>null\<close>.
  Numbers are integers (no route computes with a fraction), and an object is an
  association list in which the first binding of a key is the one that is read.
\<close>

datatype json =
    JUndefined
  | JNull
  | JBool bool
  | JNum int
  | JStr string
  | JArr "json list"
  | JObj "(string \<times> json) list"

datatype js_error =
    TypeError
  | Error string

fun nullish :: "json \<Rightarrow> bool" where
  "nullish JUndefined = True"
| "nullish JNull = True"
| "nullish v = False"

text \<open>JavaScript's ToBoolean, as used by \<^verbatim>\<open>!x\<close>, \<^verbatim>\<open>x && y\<close> and \<^verbatim>\<open>x ? a : b\<close>.\<close>

fun truthy :: "json \<Rightarrow> bool" where
  "truthy JUndefined = False"
| "truthy JNull = False"
| "truthy (JBool b) = b"
| "truthy (JNum n) = (n \<noteq> 0)"
| "truthy (JStr s) = (s \<noteq> [])"
| "truthy (JArr xs) = True"
| "truthy (JObj kvs) = True"

text \<open>
  Reading a property of a value that is neither \<^verbatim>\<open>null\<close> nor \<^verbatim>\<open>undefined\<close>: an
  own property of an object, the \<^verbatim>\<open>length\<close> of an array or a string, and
  \<^verbatim>\<open>undefined\<close> for every other name the routes read.
\<close>

fun property :: "json \<Rightarrow> string \<Rightarrow> json" where
  "property (JObj kvs) k = (case map_of kvs k of Some v \<Rightarrow> v | None \<Rightarrow> JUndefined)"
| "property (JArr xs) k = (if k = ''length'' then JNum (int (length xs)) else JUndefined)"
| "property (JStr s) k = (if k = ''length'' then JNum (int (length s)) else JUndefined)"
| "property v k = JUndefined"

text \<open>\<^verbatim>\<open>v.k\<close> and the destructuring \<^verbatim>\<open>const {k} = v\<close>: a TypeError on null and undefined.\<close>

definition read_property :: "json \<Rightarrow> string \<Rightarrow> js_error + json" where
  "read_property v k = (if nullish v then Inl TypeError else Inr (property v k))"

text \<open>\<^verbatim>\<open>v?.k\<close>: undefined on null and undefined, never an exception.\<close>

definition optional_chain :: "json \<Rightarrow> string \<Rightarrow> json" where
  "optional_chain v k = (if nullish v then JUndefined else property v k)"

text \<open>Sequencing of computations that may throw.\<close>

fun and_then :: "js_error + 'a \<Rightarrow> ('a \<Rightarrow> js_error + 'b) \<Rightarrow> js_error + 'b" where
  "and_then (Inl e) f = Inl e"
| "and_then (Inr x) f = f x"

section \<open>Promises on a clock\<close>

text \<open>
  Time is counted in milliseconds from the moment the loader is entered. A promise is
  the instant at which it settles together with the way it settles: \<open>Inr v\<close> is
  fulfilment with \<open>v\<close>, \<open>Inl e\<close> is rejection with \<open>e\<close>. A promise whose instant is
  \<open>\<infinity>\<close> never settles, and its outcome is then never observed.
\<close>

record 'a promise =
  settles_at :: enat
  outcome :: "js_error + 'a"

datatype 'a handle_state =
    Pending
  | Resolved 'a
  | Failed js_error

definition state_at :: "'a promise \<Rightarrow> enat \<Rightarrow> 'a handle_state" where
  "state_at p t =
     (if t < settles_at p then Pending
      else case outcome p of Inr v \<Rightarrow> Resolved v | Inl e \<Rightarrow> Failed e)"

text \<open>
  \<^verbatim>\<open>Promise.all([p, q])\<close>: fulfilled with both values once the later of the two is
  fulfilled; rejected as soon as one of them rejects, with the reason of the earliest
  rejection (of \<open>p\<close> when both reject at the same instant).
\<close>

definition Promise_all :: "'a promise \<Rightarrow> 'b promise \<Rightarrow> ('a \<times> 'b) promise" where
  "Promise_all p q =
     (case (outcome p, outcome q) of
        (Inr a, Inr b) \<Rightarrow> \<lparr>settles_at = max (settles_at p) (settles_at q), outcome = Inr (a, b)\<rparr>
      | (Inl e, Inr b) \<Rightarrow> \<lparr>settles_at = settles_at p, outcome = Inl e\<rparr>
      | (Inr a, Inl e) \<Rightarrow> \<lparr>settles_at = settles_at q, outcome = Inl e\<rparr>
      | (Inl e, Inl e') \<Rightarrow>
          (if settles_at p \<le> settles_at q
           then \<lparr>settles_at = settles_at p, outcome = Inl e\<rparr>
           else \<lparr>settles_at = settles_at q, outcome = Inl e'\<rparr>))"

text \<open>
  Modelled from the spec: \<^verbatim>\<open>pMinDelay\<close> is the default export of the package
  \<^verbatim>\<open>p-min-delay\<close>, which the route imports and whose code is not part of the
  sources. The spec describes it as a one-sided floor: the wrapped promise settles the
  way the underlying one does, once both the underlying promise has settled and the
  floor, counted from the call, has elapsed. \<open>started\<close> is the instant of the call.
\<close>

definition pMinDelay :: "'a promise \<Rightarrow> nat \<Rightarrow> enat \<Rightarrow> 'a promise" where
  "pMinDelay p minimumDelay started =
     p\<lparr>settles_at := max (settles_at p) (started + enat minimumDelay)\<rparr>"

section \<open>The query gateway\<close>

datatype CachePolicy = CacheNone | CacheShort | CacheLong

datatype query_doc =
    CHARACTER_QUERY
  | CHARACTER_LOCATIONS_QUERY
  | DEFERRED_CHARACTER_EPISODES_QUERY
  | CHARACTERS_QUERY

text \<open>
  One call of \<^verbatim>\<open>context.rickAndMorty.query(doc, {variables, cache})\<close>, stamped with
  the instant at which it is issued. \<open>variables = None\<close> is an options object without
  the \<^verbatim>\<open>variables\<close> key.
\<close>

record query_call =
  issued_at :: enat
  doc :: query_doc
  variables :: "(string \<times> json) list option"
  cache :: CachePolicy

text \<open>
  The gateway is a parameter of the model: for each call it gives how long the call
  takes (\<open>\<infinity>\<close> for a call that never comes back) and how it settles.
\<close>

type_synonym gateway = "query_call \<Rightarrow> enat \<times> (js_error + json)"

text \<open>
  The state an \<^verbatim>\<open>async\<close> function's body runs in: the clock and the calls issued so far.
\<close>

record run_state =
  now :: enat
  calls :: "query_call list"

text \<open>The promise a call comes back as.\<close>

definition fetched :: "gateway \<Rightarrow> query_call \<Rightarrow> json promise" where
  "fetched gw call = \<lparr>settles_at = issued_at call + fst (gw call), outcome = snd (gw call)\<rparr>"

definition query ::
  "gateway \<Rightarrow> query_doc \<Rightarrow> (string \<times> json) list option \<Rightarrow> CachePolicy \<Rightarrow> run_state
     \<Rightarrow> json promise \<times> run_state" where
  "query gw d vars c s =
     (let call = \<lparr>issued_at = now s, doc = d, variables = vars, cache = c\<rparr>
      in (fetched gw call, s\<lparr>calls := calls s @ [call]\<rparr>))"

text \<open>\<^verbatim>\<open>await p\<close>: the body resumes when \<open>p\<close> has settled, with its outcome.\<close>

definition await :: "'a promise \<Rightarrow> run_state \<Rightarrow> (js_error + 'a) \<times> run_state" where
  "await p s = (outcome p, s\<lparr>now := max (now s) (settles_at p)\<rparr>)"

section \<open>The loaders\<close>

text \<open>The route parameters; \<open>None\<close> is an absent parameter (\<^verbatim>\<open>undefined\<close>).\<close>

type_synonym params = "string \<Rightarrow> string option"

definition param :: "params \<Rightarrow> string \<Rightarrow> json" where
  "param ps k = (case ps k of None \<Rightarrow> JUndefined | Some s \<Rightarrow> JStr s)"

record loader_data =
  character :: json
  locations :: json
  episodesPromise :: "json promise"

text \<open>
  What a run of a loader amounts to: the instant at which it returns or throws, the
  gateway calls it has issued, and the value it returns (\<open>Inr\<close>) or the exception it
  throws (\<open>Inl\<close>). A run whose instant is \<open>\<infinity>\<close> never comes back, and its response is
  then never observed.
\<close>

record 'a loader_result =
  returned_at :: enat
  issued :: "query_call list"
  response :: "js_error + 'a"

text \<open>\<^verbatim>\<open>app/routes/characters.$id.tsx\<close>, \<^verbatim>\<open>loader\<close>.\<close>

definition loader :: "gateway \<Rightarrow> params \<Rightarrow> loader_data loader_result" where
  "loader gw ps =
     (let s0 = \<lparr>now = 0, calls = []\<rparr>;
          (episodesQuery, s1) =
             query gw DEFERRED_CHARACTER_EPISODES_QUERY
               (Some [(''id'', param ps ''id'')]) CacheNone s0;
          episodes = pMinDelay episodesQuery 2000 (now s1);
          (characterPromise, s2) =
             query gw CHARACTER_QUERY (Some [(''id'', param ps ''id'')]) CacheNone s1;
          (locationsPromise, s3) =
             query gw CHARACTER_LOCATIONS_QUERY (Some []) CacheNone s2;
          (joined, s4) = await (Promise_all characterPromise locationsPromise) s3
      in \<lparr>returned_at = now s4,
          issued = calls s4,
          response =
            and_then joined (\<lambda>(c, l).
              and_then (read_property c ''character'') (\<lambda>ch.
                and_then (read_property l ''locations'') (\<lambda>ls.
                  Inr \<lparr>character = ch, locations = ls, episodesPromise = episodes\<rparr>)))\<rparr>)"

text \<open>The listing route's \<^verbatim>\<open>loader\<close> (the home page).\<close>

definition loader_index :: "gateway \<Rightarrow> json loader_result" where
  "loader_index gw =
     (let s0 = \<lparr>now = 0, calls = []\<rparr>;
          (charactersPromise, s1) = query gw CHARACTERS_QUERY None CacheShort s0;
          (got, s2) = await charactersPromise s1
      in \<lparr>returned_at = now s2,
          issued = calls s2,
          response = and_then got (\<lambda>d. read_property d ''characters'')\<rparr>)"

section \<open>The character page\<close>

text \<open>
  The components are modelled as functions from their props to what they render, as
  far as the claims observe it; an exception thrown while rendering is \<open>Inl\<close>.
\<close>

text \<open>
  \<^verbatim>\<open>v.slice(0, n).map(f)\<close>, where \<open>f\<close> takes the entry and its index. Only an array
  has both methods: on every other value the call throws a TypeError.
\<close>

fun map_index :: "(json \<Rightarrow> nat \<Rightarrow> js_error + 'b) \<Rightarrow> nat \<Rightarrow> json list \<Rightarrow> js_error + 'b list" where
  "map_index f i [] = Inr []"
| "map_index f i (x # xs) =
     and_then (f x i) (\<lambda>y. and_then (map_index f (Suc i) xs) (\<lambda>ys. Inr (y # ys)))"

definition slice_map :: "json \<Rightarrow> nat \<Rightarrow> (json \<Rightarrow> nat \<Rightarrow> js_error + 'b) \<Rightarrow> js_error + 'b list" where
  "slice_map v n f = (case v of JArr xs \<Rightarrow> map_index f 0 (take n xs) | _ \<Rightarrow> Inl TypeError)"

text \<open>One \<^verbatim>\<open><div key={location.name}><p>{location.name}</p></div>\<close>.\<close>

record location_div =
  div_key :: json
  p_text :: json

definition Locations :: "json \<Rightarrow> js_error + location_div list" where
  "Locations locs =
     slice_map locs 6 (\<lambda>location index.
       and_then (read_property location ''name'') (\<lambda>n. Inr \<lparr>div_key = n, p_text = n\<rparr>))"

text \<open>
  One \<^verbatim>\<open><li>\<close> of the episodes grid. The key \<^verbatim>\<open>episode.id + index\<close> is kept as
  the pair of its two operands.
\<close>

record episode_li =
  li_key :: "json \<times> nat"
  backgroundColor :: string
  li_text :: json

text \<open>
  What the episodes section shows: the grid of \<^verbatim>\<open>EpisodesGrid\<close>, the message of
  \<^verbatim>\<open>NoEpisodes\<close> (``Whoops, no episodes found!''), or the \<^verbatim>\<open>errorElement\<close> of
  \<^verbatim>\<open>Await\<close> (``There was an error while fetching the episodes'').
\<close>

datatype episodes_view =
    EpisodesGridView "episode_li list"
  | NoEpisodesView
  | ErrorElementView

definition placeholderEpisode :: json where
  "placeholderEpisode =
     JObj [(''name'', JStr ''Loading...''),
           (''air_date'', JStr []),
           (''id'', JStr []),
           (''characters'', JArr [JObj [], JObj [], JObj []])]"

definition episode_item :: "json \<Rightarrow> nat \<Rightarrow> js_error + episode_li" where
  "episode_item episode index =
     and_then (read_property episode ''id'') (\<lambda>i.
       and_then (read_property episode ''name'') (\<lambda>n.
         Inr \<lparr>li_key = (i, index),
              backgroundColor = (if truthy i then ''white'' else ''#eee''),
              li_text = n\<rparr>))"

text \<open>\<^verbatim>\<open>EpisodesGrid\<close>; the prop \<open>episodes\<close> is \<open>JUndefined\<close> when it is not passed.\<close>

definition EpisodesGrid :: "json \<Rightarrow> js_error + episodes_view" where
  "EpisodesGrid episodes =
     (let episodeNodes =
            (if \<not> truthy (optional_chain episodes ''length'')
             then JArr (replicate 4 placeholderEpisode)
             else episodes)
      in and_then (slice_map episodeNodes 4 episode_item) (\<lambda>lis. Inr (EpisodesGridView lis)))"

text \<open>The render function that is the child of \<^verbatim>\<open>Await\<close>.\<close>

definition Await_children :: "json \<Rightarrow> js_error + episodes_view" where
  "Await_children data =
     (if \<not> truthy (optional_chain (optional_chain data ''character'') ''episode'')
      then Inr NoEpisodesView
      else and_then (read_property data ''character'') (\<lambda>c.
             and_then (read_property c ''episode'') EpisodesGrid))"

text \<open>
  \<^verbatim>\<open><Suspense fallback={...}><Await resolve={...} errorElement={...}>\<close>: the fallback
  while the promise is pending, the error element once it has rejected, the children
  applied to the value once it is fulfilled.
\<close>

definition Suspense_Await ::
  "'a handle_state \<Rightarrow> (js_error + 'v) \<Rightarrow> 'v \<Rightarrow> ('a \<Rightarrow> js_error + 'v) \<Rightarrow> js_error + 'v" where
  "Suspense_Await st fallback errorElement children =
     (case st of
        Pending \<Rightarrow> fallback
      | Failed e \<Rightarrow> Inr errorElement
      | Resolved v \<Rightarrow> children v)"

text \<open>The episodes section of the page, rendered at the instant \<open>t\<close>.\<close>

definition episodes_section :: "json promise \<Rightarrow> enat \<Rightarrow> js_error + episodes_view" where
  "episodes_section p t =
     Suspense_Await (state_at p t) (EpisodesGrid JUndefined) ErrorElementView Await_children"

record character_page =
  h1 :: json
  img_src :: json
  type_li :: "json option"
  species_li :: json
  gender_li :: json
  origin_li :: json
  location_li :: json
  locations_divs :: "location_div list"
  episodes :: episodes_view

text \<open>
  The route component \<^verbatim>\<open>Character\<close>, given what \<^verbatim>\<open>useLoaderData\<close> returns and the
  instant \<open>t\<close> at which it renders.
\<close>

definition Character :: "loader_data \<Rightarrow> enat \<Rightarrow> js_error + character_page" where
  "Character d t =
     and_then (read_property (character d) ''name'') (\<lambda>name.
     and_then (read_property (character d) ''image'') (\<lambda>image.
     and_then (read_property (character d) ''type'') (\<lambda>ty.
     and_then (read_property (character d) ''species'') (\<lambda>species.
     and_then (read_property (character d) ''gender'') (\<lambda>gender.
     and_then (and_then (read_property (character d) ''origin'')
                 (\<lambda>origin. read_property origin ''name'')) (\<lambda>origin_name.
     and_then (and_then (read_property (character d) ''location'')
                 (\<lambda>location. read_property location ''name'')) (\<lambda>location_name.
     and_then (read_property (locations d) ''results'') (\<lambda>results.
     and_then (Locations results) (\<lambda>divs.
     and_then (episodes_section (episodesPromise d) t) (\<lambda>section.
       Inr \<lparr>h1 = name,
            img_src = image,
            type_li = (if truthy ty then Some ty else None),
            species_li = species,
            gender_li = gender,
            origin_li = origin_name,
            location_li = location_name,
            locations_divs = divs,
            episodes = section\<rparr>))))))))))"

section \<open>Names used in the statements\<close>

text \<open>The three calls of the detail loader, as it issues them.\<close>

definition episodes_call :: "params \<Rightarrow> query_call" where
  "episodes_call ps =
     \<lparr>issued_at = 0, doc = DEFERRED_CHARACTER_EPISODES_QUERY,
      variables = Some [(''id'', param ps ''id'')], cache = CacheNone\<rparr>"

definition character_call :: "params \<Rightarrow> query_call" where
  "character_call ps =
     \<lparr>issued_at = 0, doc = CHARACTER_QUERY,
      variables = Some [(''id'', param ps ''id'')], cache = CacheNone\<rparr>"

definition locations_call :: query_call where
  "locations_call =
     \<lparr>issued_at = 0, doc = CHARACTER_LOCATIONS_QUERY, variables = Some [], cache = CacheNone\<rparr>"

text \<open>The \<^verbatim>\<open><li>\<close> that \<open>episode_item\<close> renders for an entry that is an object.\<close>

definition li_of :: "nat \<times> json \<Rightarrow> episode_li" where
  "li_of ix =
     \<lparr>li_key = (property (snd ix) ''id'', fst ix),
      backgroundColor = (if truthy (property (snd ix) ''id'') then ''white'' else ''#eee''),
      li_text = property (snd ix) ''name''\<rparr>"

definition placeholder_li :: "nat \<Rightarrow> episode_li" where
  "placeholder_li i = \<lparr>li_key = (JStr [], i), backgroundColor = ''#eee'', li_text = JStr ''Loading...''\<rparr>"

definition div_of :: "json \<Rightarrow> location_div" where
  "div_of x = \<lparr>div_key = property x ''name'', p_text = property x ''name''\<rparr>"

subsection \<open>Concrete inputs\<close>

text \<open>
  A gateway that answers each query document with a fixed duration and outcome: the
  episodes query with \<open>ep\<close>, the character query with \<open>ch\<close>, the locations query with
  \<open>lo\<close>, the listing query with \<open>li\<close>.
\<close>

definition stub_gateway ::
  "enat \<times> (js_error + json) \<Rightarrow> enat \<times> (js_error + json) \<Rightarrow> enat \<times> (js_error + json)
     \<Rightarrow> enat \<times> (js_error + json) \<Rightarrow> gateway" where
  "stub_gateway ep ch lo li call =
     (case doc call of
        DEFERRED_CHARACTER_EPISODES_QUERY \<Rightarrow> ep
      | CHARACTER_QUERY \<Rightarrow> ch
      | CHARACTER_LOCATIONS_QUERY \<Rightarrow> lo
      | CHARACTERS_QUERY \<Rightarrow> li)"

definition morty :: json where
  "morty =
     JObj [(''character'',
            JObj [(''name'', JStr ''Morty Smith''), (''id'', JStr ''2''),
                  (''gender'', JStr ''Male''), (''image'', JStr ''morty.jpeg''),
                  (''type'', JStr []), (''species'', JStr ''Human''),
                  (''origin'', JObj [(''name'', JStr ''unknown'')]),
                  (''location'', JObj [(''name'', JStr ''Citadel of Ricks'')])])]"

definition nobody :: json where
  "nobody = JObj [(''character'', JNull)]"

definition place :: "string \<Rightarrow> json" where
  "place n = JObj [(''name'', JStr n), (''residents'', JArr [])]"

definition seven_places :: json where
  "seven_places =
     JObj [(''locations'',
            JObj [(''results'',
                   JArr [place ''Earth'', place ''Abadango'', place ''Citadel of Ricks'',
                         place ''Worldender'', place ''Anatomy Park'', place ''Interdimensional Cable'',
                         place ''Immortality Field Resort''])])]"

definition episode :: "string \<Rightarrow> string \<Rightarrow> json" where
  "episode i n =
     JObj [(''id'', JStr i), (''name'', JStr n), (''air_date'', JStr []), (''characters'', JArr [])]"

definition five_episodes :: json where
  "five_episodes =
     JObj [(''character'',
            JObj [(''episode'',
                   JArr [episode ''1'' ''Pilot'', episode ''2'' ''Lawnmower Dog'',
                         episode ''3'' ''Anatomy Park'', episode ''4'' ''M. Night Shaym-Aliens!'',
                         episode ''5'' ''Meeseeks and Destroy''])])]"

definition no_episodes :: json where
  "no_episodes = JObj [(''character'', JObj [(''episode'', JArr [])])]"

definition characters_page :: json where
  "characters_page =
     JObj [(''characters'',
            JObj [(''results'', JArr [JObj [(''name'', JStr ''Rick Sanchez''), (''id'', JStr ''1'')]])])]"

text \<open>The page of Morty with a given episodes section.\<close>

definition morty_page :: "episodes_view \<Rightarrow> character_page" where
  "morty_page v =
     \<lparr>h1 = JStr ''Morty Smith'', img_src = JStr ''morty.jpeg'', type_li = None,
      species_li = JStr ''Human'', gender_li = JStr ''Male'', origin_li = JStr ''unknown'',
      location_li = JStr ''Citadel of Ricks'',
      locations_divs =
        [div_of (place ''Earth''), div_of (place ''Abadango''), div_of (place ''Citadel of Ricks''),
         div_of (place ''Worldender''), div_of (place ''Anatomy Park''),
         div_of (place ''Interdimensional Cable'')],
      episodes = v\<rparr>"

definition request_for :: "string \<Rightarrow> params" where
  "request_for i = Map.empty(''id'' \<mapsto> i)"

section \<open>Facts about the loader\<close>

lemma loader_unfolded:
  "loader gw ps =
     \<lparr>returned_at = settles_at (Promise_all (fetched gw (character_call ps)) (fetched gw locations_call)),
      issued = [episodes_call ps, character_call ps, locations_call],
      response =
        and_then (outcome (Promise_all (fetched gw (character_call ps)) (fetched gw locations_call)))
          (\<lambda>(c, l).
            and_then (read_property c ''character'') (\<lambda>ch.
              and_then (read_property l ''locations'') (\<lambda>ls.
                Inr \<lparr>character = ch, locations = ls,
                     episodesPromise = pMinDelay (fetched gw (episodes_call ps)) 2000 0\<rparr>)))\<rparr>"
  by (simp add: loader_def query_def await_def Let_def episodes_call_def character_call_def
      locations_call_def max_def)

lemma loader_index_issued:
  "issued (loader_index gw)
     = [\<lparr>issued_at = 0, doc = CHARACTERS_QUERY, variables = None, cache = CacheShort\<rparr>]"
  by (simp add: loader_index_def query_def await_def Let_def)

lemma fetched_simps:
  "settles_at (fetched gw (episodes_call ps)) = fst (gw (episodes_call ps))"
  "settles_at (fetched gw (character_call ps)) = fst (gw (character_call ps))"
  "settles_at (fetched gw locations_call) = fst (gw locations_call)"
  "outcome (fetched gw c) = snd (gw c)"
  by (simp_all add: fetched_def episodes_call_def character_call_def locations_call_def)

lemma and_then_Inr_iff:
  "and_then m f = Inr y \<longleftrightarrow> (\<exists>x. m = Inr x \<and> f x = Inr y)"
  by (cases m) simp_all

lemma loader_episodesPromise:
  assumes "response (loader gw ps) = Inr d"
  shows "episodesPromise d = pMinDelay (fetched gw (episodes_call ps)) 2000 0"
  using assms by (auto simp: loader_unfolded and_then_Inr_iff)

lemma loader_success:
  assumes "response (loader gw ps) = Inr d"
  shows "\<exists>c l. snd (gw (character_call ps)) = Inr c \<and> snd (gw locations_call) = Inr l
           \<and> read_property c ''character'' = Inr (character d)
           \<and> read_property l ''locations'' = Inr (locations d)"
  using assms
  by (auto simp: loader_unfolded and_then_Inr_iff Promise_all_def fetched_simps
      split: sum.splits if_splits)

lemma loader_succeeds:
  assumes "snd (gw (character_call ps)) = Inr c" "snd (gw locations_call) = Inr l"
    "read_property c ''character'' = Inr ch" "read_property l ''locations'' = Inr ls"
  shows "response (loader gw ps) =
           Inr \<lparr>character = ch, locations = ls,
                episodesPromise = pMinDelay (fetched gw (episodes_call ps)) 2000 0\<rparr>"
    and "returned_at (loader gw ps) = max (fst (gw (character_call ps))) (fst (gw locations_call))"
  using assms by (simp_all add: loader_unfolded Promise_all_def fetched_simps)

lemma loader_result_explicit:
  assumes "snd (gw (character_call ps)) = Inr c" "snd (gw locations_call) = Inr l"
    "read_property c ''character'' = Inr ch" "read_property l ''locations'' = Inr ls"
  shows "response (loader gw ps) =
           Inr \<lparr>character = ch, locations = ls,
                episodesPromise =
                  \<lparr>settles_at = max (enat 2000) (fst (gw (episodes_call ps))),
                   outcome = snd (gw (episodes_call ps))\<rparr>\<rparr>"
  using assms
  by (simp add: loader_unfolded Promise_all_def fetched_simps pMinDelay_def fetched_def
      episodes_call_def max.commute)

lemma loader_rejects:
  shows "snd (gw (character_call ps)) = Inl e \<Longrightarrow> snd (gw locations_call) = Inr l \<Longrightarrow>
           response (loader gw ps) = Inl e \<and> returned_at (loader gw ps) = fst (gw (character_call ps))"
    and "snd (gw (character_call ps)) = Inr c \<Longrightarrow> snd (gw locations_call) = Inl e \<Longrightarrow>
           response (loader gw ps) = Inl e \<and> returned_at (loader gw ps) = fst (gw locations_call)"
    and "snd (gw (character_call ps)) = Inl e \<Longrightarrow> snd (gw locations_call) = Inl e' \<Longrightarrow>
           response (loader gw ps)
             = Inl (if fst (gw (character_call ps)) \<le> fst (gw locations_call) then e else e')
           \<and> returned_at (loader gw ps)
             = min (fst (gw (character_call ps))) (fst (gw locations_call))"
  by (simp_all add: loader_unfolded Promise_all_def fetched_simps min_def)

lemma loader_null_payload:
  assumes "snd (gw (character_call ps)) = Inr c" "snd (gw locations_call) = Inr l"
    "nullish c \<or> nullish l"
  shows "response (loader gw ps) = Inl TypeError"
  using assms
  by (auto simp: loader_unfolded Promise_all_def fetched_simps read_property_def)

lemma critical_fetches_cong:
  assumes "\<forall>c. doc c \<noteq> DEFERRED_CHARACTER_EPISODES_QUERY \<longrightarrow> gw' c = gw c"
  shows "fetched gw' (character_call ps) = fetched gw (character_call ps)"
    and "fetched gw' locations_call = fetched gw locations_call"
  using assms by (simp_all add: fetched_def character_call_def locations_call_def)

text \<open>
  The deferred fetch has no part in when the loader returns, in whether it throws, or
  in the critical data it returns.
\<close>

lemma loader_critical_cong:
  assumes "\<forall>c. doc c \<noteq> DEFERRED_CHARACTER_EPISODES_QUERY \<longrightarrow> gw' c = gw c"
  shows "returned_at (loader gw' ps) = returned_at (loader gw ps)"
    and "map_sum id (\<lambda>d. (character d, locations d)) (response (loader gw' ps))
           = map_sum id (\<lambda>d. (character d, locations d)) (response (loader gw ps))"
proof -
  show "returned_at (loader gw' ps) = returned_at (loader gw ps)"
    by (simp add: loader_unfolded critical_fetches_cong [OF assms])
  let ?j = "outcome (Promise_all (fetched gw (character_call ps)) (fetched gw locations_call))"
  show "map_sum id (\<lambda>d. (character d, locations d)) (response (loader gw' ps))
          = map_sum id (\<lambda>d. (character d, locations d)) (response (loader gw ps))"
  proof (cases ?j)
    case (Inl e)
    then show ?thesis
      by (simp add: loader_unfolded critical_fetches_cong [OF assms])
  next
    case (Inr cl)
    obtain c l where cl: "cl = (c, l)" by (cases cl)
    show ?thesis
      using Inr cl
      by (cases "read_property c ''character''"; cases "read_property l ''locations''")
         (simp_all add: loader_unfolded critical_fetches_cong [OF assms])
  qed
qed

lemma loader_failure_cong:
  assumes "\<forall>c. doc c \<noteq> DEFERRED_CHARACTER_EPISODES_QUERY \<longrightarrow> gw' c = gw c"
  shows "isl (response (loader gw' ps)) = isl (response (loader gw ps))"
proof -
  have "isl (map_sum f g x) = isl x" for f :: "js_error \<Rightarrow> js_error"
    and g :: "loader_data \<Rightarrow> json \<times> json" and x
    by (cases x) simp_all
  with loader_critical_cong(2) [OF assms, of ps] show ?thesis
    by metis
qed

lemma state_at_Pending_iff: "state_at p t = Pending \<longleftrightarrow> t < settles_at p"
  by (simp add: state_at_def split: sum.splits)

lemma stub_simps:
  "stub_gateway ep ch lo li (episodes_call ps) = ep"
  "stub_gateway ep ch lo li (character_call ps) = ch"
  "stub_gateway ep ch lo li locations_call = lo"
  by (simp_all add: stub_gateway_def episodes_call_def character_call_def locations_call_def)

lemma sample_reads:
  "read_property morty ''character'' = Inr (property morty ''character'')"
  "read_property nobody ''character'' = Inr JNull"
  "read_property seven_places ''locations'' = Inr (property seven_places ''locations'')"
  by (simp_all add: read_property_def morty_def nobody_def seven_places_def)

section \<open>Facts about the components\<close>

lemma map_index_episode_item:
  "\<forall>x\<in>set xs. \<not> nullish x \<Longrightarrow>
     map_index episode_item i xs = Inr (map li_of (List.enumerate i xs))"
  by (induction xs arbitrary: i) (simp_all add: episode_item_def read_property_def li_of_def)

lemma map_index_location:
  "\<forall>x\<in>set xs. \<not> nullish x \<Longrightarrow>
     map_index (\<lambda>location index.
        and_then (read_property location ''name'') (\<lambda>n. Inr \<lparr>div_key = n, p_text = n\<rparr>)) i xs
     = Inr (map div_of xs)"
  by (induction xs arbitrary: i) (simp_all add: read_property_def div_of_def)

lemma EpisodesGrid_fallback:
  "EpisodesGrid JUndefined =
     Inr (EpisodesGridView [placeholder_li 0, placeholder_li 1, placeholder_li 2, placeholder_li 3])"
  by (simp add: EpisodesGrid_def optional_chain_def slice_map_def eval_nat_numeral
      episode_item_def read_property_def placeholderEpisode_def placeholder_li_def)

lemma EpisodesGrid_empty: "EpisodesGrid (JArr []) = EpisodesGrid JUndefined"
  by (simp add: EpisodesGrid_def optional_chain_def)

lemma EpisodesGrid_entries:
  assumes "xs \<noteq> []" "\<forall>x\<in>set xs. \<not> nullish x"
  shows "EpisodesGrid (JArr xs) = Inr (EpisodesGridView (map li_of (List.enumerate 0 (take 4 xs))))"
proof -
  have "\<forall>x\<in>set (take 4 xs). \<not> nullish x"
    using assms(2) by (meson in_set_takeD)
  then show ?thesis
    using assms(1)
    by (simp add: EpisodesGrid_def optional_chain_def slice_map_def map_index_episode_item)
qed

lemma Await_children_array:
  assumes "optional_chain (optional_chain data ''character'') ''episode'' = JArr xs"
  shows "Await_children data = EpisodesGrid (JArr xs)"
proof -
  have 1: "\<not> nullish data" "\<not> nullish (property data ''character'')"
    using assms by (auto simp: optional_chain_def split: if_splits)
  then have "property (property data ''character'') ''episode'' = JArr xs"
    using assms by (simp add: optional_chain_def)
  with 1 show ?thesis
    using assms by (simp add: Await_children_def read_property_def)
qed

text \<open>An absent payload, at whichever level it is absent, gives the \<^verbatim>\<open>NoEpisodes\<close> message.\<close>

lemma Await_children_absent:
  assumes "nullish data \<or> nullish (property data ''character'')
           \<or> nullish (property (property data ''character'') ''episode'')"
  shows "Await_children data = Inr NoEpisodesView"
proof -
  have "\<not> truthy v" if "nullish v" for v
    using that by (cases v) simp_all
  with assms have "\<not> truthy (optional_chain (optional_chain data ''character'') ''episode'')"
    by (auto simp: optional_chain_def)
  then show ?thesis
    by (simp add: Await_children_def)
qed

lemma episodes_section_pending:
  "t < settles_at p \<Longrightarrow> episodes_section p t = EpisodesGrid JUndefined"
  by (simp add: episodes_section_def state_at_def Suspense_Await_def)

lemma episodes_section_resolved:
  "settles_at p \<le> t \<Longrightarrow> outcome p = Inr data \<Longrightarrow> episodes_section p t = Await_children data"
  by (simp add: episodes_section_def state_at_def Suspense_Await_def not_less [symmetric])

lemma episodes_section_failed:
  "settles_at p \<le> t \<Longrightarrow> outcome p = Inl e \<Longrightarrow> episodes_section p t = Inr ErrorElementView"
  by (simp add: episodes_section_def state_at_def Suspense_Await_def not_less [symmetric])

lemma Character_Inr_section:
  assumes "Character d t0 = Inr pg" "episodes_section (episodesPromise d) t = Inr v"
  shows "Character d t = Inr (pg\<lparr>episodes := v\<rparr>)"
  using assms by (auto simp: Character_def and_then_Inr_iff)

lemma Character_null:
  "nullish (character d) \<Longrightarrow> Character d t = Inl TypeError"
  by (simp add: Character_def read_property_def)

lemma EpisodesGrid_not_error: "EpisodesGrid v \<noteq> Inr ErrorElementView"
  by (cases "slice_map (if \<not> truthy (optional_chain v ''length'')
                         then JArr (replicate 4 placeholderEpisode) else v) 4 episode_item")
     (simp_all add: EpisodesGrid_def)

lemma Await_children_not_error: "Await_children data \<noteq> Inr ErrorElementView"
proof (cases "truthy (optional_chain (optional_chain data ''character'') ''episode'')")
  case False
  then show ?thesis by (simp add: Await_children_def)
next
  case True
  show ?thesis
  proof (cases "read_property data ''character''")
    case (Inl e)
    then show ?thesis using True by (simp add: Await_children_def)
  next
    case c: (Inr c)
    show ?thesis
      using True c
      by (cases "read_property c ''episode''")
         (simp_all add: Await_children_def EpisodesGrid_not_error)
  qed
qed

lemma episodes_section_error_iff:
  "episodes_section p t = Inr ErrorElementView \<longleftrightarrow> (\<exists>e. state_at p t = Failed e)"
  by (cases "state_at p t")
     (simp_all add: episodes_section_def Suspense_Await_def EpisodesGrid_not_error
       Await_children_not_error)

lemma state_at_settled:
  "settles_at p \<le> t \<Longrightarrow> outcome p = Inl e \<Longrightarrow> state_at p t = Failed e"
  by (simp add: state_at_def not_less [symmetric])

lemma morty_page_renders:
  assumes "character d = property morty ''character''"
    and "locations d = property seven_places ''locations''"
    and "episodes_section (episodesPromise d) t = Inr v"
  shows "Character d t = Inr (morty_page v)"
  using assms
  by (simp add: Character_def read_property_def morty_def seven_places_def place_def
      Locations_def slice_map_def eval_nat_numeral morty_page_def div_of_def)

lemma five_episodes_chain:
  "optional_chain (optional_chain five_episodes ''character'') ''episode''
     = JArr [episode ''1'' ''Pilot'', episode ''2'' ''Lawnmower Dog'',
             episode ''3'' ''Anatomy Park'', episode ''4'' ''M. Night Shaym-Aliens!'',
             episode ''5'' ''Meeseeks and Destroy'']"
  by (simp add: five_episodes_def optional_chain_def)

section \<open>The claims\<close>

subsection \<open>C1: the minimum-latency floor\<close>

text \<open>
  Claim C1. Whenever the loader hands out the deferred handle, the handle settles at
  exactly the later of the 2000 ms floor and the instant at which the episodes fetch
  itself settles, and it settles the way the fetch does: a fetch that is done before the
  floor is held back until the floor, a fetch that takes longer than the floor is not
  delayed at all.
\<close>

theorem C1_floor_is_max:
  assumes "response (loader gw ps) = Inr d"
  shows "settles_at (episodesPromise d) = max (enat 2000) (fst (gw (episodes_call ps)))
       \<and> outcome (episodesPromise d) = snd (gw (episodes_call ps))
       \<and> (fst (gw (episodes_call ps)) \<le> enat 2000 \<longrightarrow> settles_at (episodesPromise d) = enat 2000)
       \<and> (enat 2000 \<le> fst (gw (episodes_call ps)) \<longrightarrow>
            settles_at (episodesPromise d) = fst (gw (episodes_call ps)))"
  using loader_episodesPromise [OF assms]
  by (auto simp: pMinDelay_def fetched_simps max_def)

text \<open>
  C1 at the spec's two examples: the episodes fetch done after 5 ms gives a handle
  that settles at 2000 ms, the fetch done after 3000 ms one that settles at 3000 ms.
\<close>

theorem C1_floor_is_max_witness:
  "(\<exists>d. response (loader (stub_gateway (enat 5, Inr five_episodes) (enat 40, Inr morty)
            (enat 30, Inr seven_places) (0, Inr characters_page)) (request_for ''2'')) = Inr d
        \<and> settles_at (episodesPromise d) = enat 2000
        \<and> outcome (episodesPromise d) = Inr five_episodes)
   \<and> (\<exists>d. response (loader (stub_gateway (enat 3000, Inr five_episodes) (enat 40, Inr morty)
            (enat 30, Inr seven_places) (0, Inr characters_page)) (request_for ''2'')) = Inr d
        \<and> settles_at (episodesPromise d) = enat 3000
        \<and> outcome (episodesPromise d) = Inr five_episodes)"
proof -
  let ?fast = "stub_gateway (enat 5, Inr five_episodes) (enat 40, Inr morty)
                 (enat 30, Inr seven_places) (0, Inr characters_page)"
  let ?slow = "stub_gateway (enat 3000, Inr five_episodes) (enat 40, Inr morty)
                 (enat 30, Inr seven_places) (0, Inr characters_page)"
  obtain d where d: "response (loader ?fast (request_for ''2'')) = Inr d"
    using loader_succeeds(1) [of ?fast "request_for ''2''" morty seven_places]
    by (simp add: stub_simps sample_reads)
  obtain d' where d': "response (loader ?slow (request_for ''2'')) = Inr d'"
    using loader_succeeds(1) [of ?slow "request_for ''2''" morty seven_places]
    by (simp add: stub_simps sample_reads)
  show ?thesis
    using C1_floor_is_max [OF d] C1_floor_is_max [OF d'] d d'
    by (simp add: stub_simps)
qed

subsection \<open>C2: the loader does not wait for the deferred fetch\<close>

text \<open>
  Claim C2, as amended. When two gateways differ only in how they answer the episodes
  query, the loader returns at the same instant with the same critical data under both;
  when it succeeds it returns at the later of the two critical fetches. The handle it
  hands over is pending at that instant exactly when that instant is earlier than the
  later of the floor and the episodes fetch.
\<close>

theorem C2_return_ignores_deferred:
  assumes "\<forall>c. doc c \<noteq> DEFERRED_CHARACTER_EPISODES_QUERY \<longrightarrow> gw' c = gw c"
  shows "returned_at (loader gw' ps) = returned_at (loader gw ps)
       \<and> map_sum id (\<lambda>d. (character d, locations d)) (response (loader gw' ps))
           = map_sum id (\<lambda>d. (character d, locations d)) (response (loader gw ps))
       \<and> (\<forall>d. response (loader gw ps) = Inr d \<longrightarrow>
             returned_at (loader gw ps) = max (fst (gw (character_call ps))) (fst (gw locations_call))
           \<and> (state_at (episodesPromise d) (returned_at (loader gw ps)) = Pending
                \<longleftrightarrow> returned_at (loader gw ps) < max (enat 2000) (fst (gw (episodes_call ps)))))"
proof (intro conjI allI impI)
  show "returned_at (loader gw' ps) = returned_at (loader gw ps)"
    using assms by (rule loader_critical_cong(1))
next
  show "map_sum id (\<lambda>d. (character d, locations d)) (response (loader gw' ps))
          = map_sum id (\<lambda>d. (character d, locations d)) (response (loader gw ps))"
    using assms by (rule loader_critical_cong(2))
next
  fix d assume d: "response (loader gw ps) = Inr d"
  from loader_success [OF d] obtain c l where
    "snd (gw (character_call ps)) = Inr c" "snd (gw locations_call) = Inr l"
    "read_property c ''character'' = Inr (character d)"
    "read_property l ''locations'' = Inr (locations d)" by blast
  then show "returned_at (loader gw ps) = max (fst (gw (character_call ps))) (fst (gw locations_call))"
    by (rule loader_succeeds(2))
next
  fix d assume d: "response (loader gw ps) = Inr d"
  show "state_at (episodesPromise d) (returned_at (loader gw ps)) = Pending
          \<longleftrightarrow> returned_at (loader gw ps) < max (enat 2000) (fst (gw (episodes_call ps)))"
    by (simp add: state_at_Pending_iff loader_episodesPromise [OF d] pMinDelay_def fetched_simps
        max.commute)
qed

text \<open>
  C2 at two gateways that agree on the critical fetches (40 ms and 30 ms): with an
  episodes fetch that never comes back and with one of 5 ms the loader returns at 40 ms,
  and the handle is then pending.
\<close>

theorem C2_return_ignores_deferred_witness:
  "returned_at (loader (stub_gateway (\<infinity>, Inr five_episodes) (enat 40, Inr morty)
            (enat 30, Inr seven_places) (0, Inr characters_page)) (request_for ''2''))
   = enat 40
   \<and> returned_at (loader (stub_gateway (enat 5, Inr five_episodes) (enat 40, Inr morty)
            (enat 30, Inr seven_places) (0, Inr characters_page)) (request_for ''2''))
   = enat 40
   \<and> (\<exists>d. response (loader (stub_gateway (enat 5, Inr five_episodes) (enat 40, Inr morty)
            (enat 30, Inr seven_places) (0, Inr characters_page)) (request_for ''2'')) = Inr d
        \<and> state_at (episodesPromise d) (enat 40) = Pending)"
proof -
  let ?never = "stub_gateway (\<infinity>, Inr five_episodes) (enat 40, Inr morty)
                 (enat 30, Inr seven_places) (0, Inr characters_page)"
  let ?fast = "stub_gateway (enat 5, Inr five_episodes) (enat 40, Inr morty)
                 (enat 30, Inr seven_places) (0, Inr characters_page)"
  have agree: "\<forall>c. doc c \<noteq> DEFERRED_CHARACTER_EPISODES_QUERY \<longrightarrow> ?never c = ?fast c"
    by (simp add: stub_gateway_def split: query_doc.splits)
  obtain d where d: "response (loader ?fast (request_for ''2'')) = Inr d"
    using loader_succeeds(1) [of ?fast "request_for ''2''" morty seven_places]
    by (simp add: stub_simps sample_reads)
  note inst = C2_return_ignores_deferred [OF agree, of "request_for ''2''"]
  from inst d have r: "returned_at (loader ?fast (request_for ''2'')) = enat 40"
    by (simp add: stub_simps max_def)
  moreover from inst r have "returned_at (loader ?never (request_for ''2'')) = enat 40"
    by simp
  moreover from inst d r have "state_at (episodesPromise d) (enat 40) = Pending"
    by (simp add: stub_simps max_def)
  ultimately show ?thesis using d by simp
qed

text \<open>
  Claim C2 as stated fails where it says that the handle is still pending when it is
  handed over: with a character fetch of 2500 ms and an episodes fetch of 10 ms the
  loader returns at 2500 ms, and the handle has been resolved since 2000 ms.
\<close>

theorem C2_handle_already_settled:
  "returned_at (loader (stub_gateway (enat 10, Inr five_episodes) (enat 2500, Inr morty)
            (enat 30, Inr seven_places) (0, Inr characters_page)) (request_for ''2''))
     = enat 2500
   \<and> response (loader (stub_gateway (enat 10, Inr five_episodes) (enat 2500, Inr morty)
            (enat 30, Inr seven_places) (0, Inr characters_page)) (request_for ''2''))
     = Inr \<lparr>character = property morty ''character'',
            locations = property seven_places ''locations'',
            episodesPromise = \<lparr>settles_at = enat 2000, outcome = Inr five_episodes\<rparr>\<rparr>
   \<and> state_at \<lparr>settles_at = enat 2000, outcome = Inr five_episodes\<rparr> (enat 2500)
     = Resolved five_episodes"
  by (simp add: loader_unfolded Promise_all_def pMinDelay_def fetched_def episodes_call_def
      character_call_def locations_call_def stub_gateway_def read_property_def morty_def
      seven_places_def max_def request_for_def state_at_def)

subsection \<open>C3: the critical fetches are joined\<close>

text \<open>
  Claim C3. The character fetch and the locations fetch are both issued at the instant
  the loader is entered, before anything is awaited. When both are fulfilled and their
  payloads can be destructured, the loader returns, at the later of the two, the result
  that holds what both delivered together with the handle; and whenever it returns a
  result, that is how it came about. When either fetch rejects, the loader throws the
  rejection (the earlier one when both reject) at the instant of that rejection, and when
  a fulfilled payload is null or undefined it throws a TypeError: in each case it returns
  no result at all.
\<close>

theorem C3_fan_out_fan_in:
  "character_call ps \<in> set (issued (loader gw ps))
   \<and> locations_call \<in> set (issued (loader gw ps))
   \<and> issued_at (character_call ps) = 0 \<and> issued_at locations_call = 0
   \<and> (\<forall>d. response (loader gw ps) = Inr d \<longrightarrow>
         returned_at (loader gw ps) = max (fst (gw (character_call ps))) (fst (gw locations_call))
       \<and> (\<exists>c l. snd (gw (character_call ps)) = Inr c \<and> snd (gw locations_call) = Inr l
             \<and> read_property c ''character'' = Inr (character d)
             \<and> read_property l ''locations'' = Inr (locations d)))
   \<and> (isl (snd (gw (character_call ps))) \<or> isl (snd (gw locations_call))
        \<longrightarrow> isl (response (loader gw ps)))
   \<and> (\<forall>c l ch ls.
         snd (gw (character_call ps)) = Inr c \<and> snd (gw locations_call) = Inr l
         \<and> read_property c ''character'' = Inr ch \<and> read_property l ''locations'' = Inr ls
         \<longrightarrow> response (loader gw ps)
               = Inr \<lparr>character = ch, locations = ls,
                      episodesPromise =
                        \<lparr>settles_at = max (enat 2000) (fst (gw (episodes_call ps))),
                         outcome = snd (gw (episodes_call ps))\<rparr>\<rparr>
             \<and> returned_at (loader gw ps)
               = max (fst (gw (character_call ps))) (fst (gw locations_call)))
   \<and> (\<forall>c l. snd (gw (character_call ps)) = Inr c \<and> snd (gw locations_call) = Inr l
         \<and> (nullish c \<or> nullish l)
         \<longrightarrow> response (loader gw ps) = Inl TypeError)
   \<and> (\<forall>e l. snd (gw (character_call ps)) = Inl e \<and> snd (gw locations_call) = Inr l
         \<longrightarrow> response (loader gw ps) = Inl e
             \<and> returned_at (loader gw ps) = fst (gw (character_call ps)))
   \<and> (\<forall>c e. snd (gw (character_call ps)) = Inr c \<and> snd (gw locations_call) = Inl e
         \<longrightarrow> response (loader gw ps) = Inl e
             \<and> returned_at (loader gw ps) = fst (gw locations_call))
   \<and> (\<forall>e e'. snd (gw (character_call ps)) = Inl e \<and> snd (gw locations_call) = Inl e'
         \<longrightarrow> response (loader gw ps)
               = Inl (if fst (gw (character_call ps)) \<le> fst (gw locations_call) then e else e')
             \<and> returned_at (loader gw ps)
               = min (fst (gw (character_call ps))) (fst (gw locations_call)))"
proof (intro conjI allI impI)
  fix d assume d: "response (loader gw ps) = Inr d"
  from loader_success [OF d] obtain c l where cl:
    "snd (gw (character_call ps)) = Inr c" "snd (gw locations_call) = Inr l"
    "read_property c ''character'' = Inr (character d)"
    "read_property l ''locations'' = Inr (locations d)" by blast
  then show "returned_at (loader gw ps) = max (fst (gw (character_call ps))) (fst (gw locations_call))"
    by (rule loader_succeeds(2))
  from cl show "\<exists>c l. snd (gw (character_call ps)) = Inr c \<and> snd (gw locations_call) = Inr l
             \<and> read_property c ''character'' = Inr (character d)
             \<and> read_property l ''locations'' = Inr (locations d)" by blast
next
  assume "isl (snd (gw (character_call ps))) \<or> isl (snd (gw locations_call))"
  then show "isl (response (loader gw ps))"
    by (auto simp: loader_unfolded Promise_all_def fetched_simps isl_def split: sum.splits)
next
  fix c l ch ls
  assume h: "snd (gw (character_call ps)) = Inr c \<and> snd (gw locations_call) = Inr l
         \<and> read_property c ''character'' = Inr ch \<and> read_property l ''locations'' = Inr ls"
  then show "response (loader gw ps)
               = Inr \<lparr>character = ch, locations = ls,
                      episodesPromise =
                        \<lparr>settles_at = max (enat 2000) (fst (gw (episodes_call ps))),
                         outcome = snd (gw (episodes_call ps))\<rparr>\<rparr>"
    by (simp add: loader_result_explicit)
  from h show "returned_at (loader gw ps)
               = max (fst (gw (character_call ps))) (fst (gw locations_call))"
    by (simp add: loader_succeeds(2))
next
  fix c l
  assume "snd (gw (character_call ps)) = Inr c \<and> snd (gw locations_call) = Inr l
         \<and> (nullish c \<or> nullish l)"
  then show "response (loader gw ps) = Inl TypeError"
    by (simp add: loader_null_payload)
next
  fix e l
  assume h: "snd (gw (character_call ps)) = Inl e \<and> snd (gw locations_call) = Inr l"
  then show "response (loader gw ps) = Inl e"
    and "returned_at (loader gw ps) = fst (gw (character_call ps))"
    using loader_rejects(1) [of gw ps e l] by simp_all
next
  fix c e
  assume h: "snd (gw (character_call ps)) = Inr c \<and> snd (gw locations_call) = Inl e"
  then show "response (loader gw ps) = Inl e"
    and "returned_at (loader gw ps) = fst (gw locations_call)"
    using loader_rejects(2) [of gw ps c e] by simp_all
next
  fix e e'
  assume h: "snd (gw (character_call ps)) = Inl e \<and> snd (gw locations_call) = Inl e'"
  then show "response (loader gw ps)
               = Inl (if fst (gw (character_call ps)) \<le> fst (gw locations_call) then e else e')"
    and "returned_at (loader gw ps)
               = min (fst (gw (character_call ps))) (fst (gw locations_call))"
    using loader_rejects(3) [of gw ps e e'] by simp_all
qed (simp_all add: loader_unfolded character_call_def locations_call_def)

text \<open>
  C3 at a gateway whose locations fetch is the slower of the two (the loader returns
  Morty and the locations at its 90 ms) and at one whose locations fetch rejects after
  30 ms (the loader throws that error at 30 ms).
\<close>

theorem C3_fan_out_fan_in_witness:
  "response (loader (stub_gateway (enat 5, Inr five_episodes) (enat 40, Inr morty)
            (enat 90, Inr seven_places) (0, Inr characters_page)) (request_for ''2''))
     = Inr \<lparr>character = property morty ''character'',
            locations = property seven_places ''locations'',
            episodesPromise = \<lparr>settles_at = enat 2000, outcome = Inr five_episodes\<rparr>\<rparr>
   \<and> returned_at (loader (stub_gateway (enat 5, Inr five_episodes) (enat 40, Inr morty)
            (enat 90, Inr seven_places) (0, Inr characters_page)) (request_for ''2'')) = enat 90
   \<and> response (loader (stub_gateway (enat 5, Inr five_episodes) (enat 40, Inr morty)
            (enat 30, Inl (Error ''Error fetching from rick and morty api: Bad Gateway''))
            (0, Inr characters_page)) (request_for ''2''))
     = Inl (Error ''Error fetching from rick and morty api: Bad Gateway'')
   \<and> returned_at (loader (stub_gateway (enat 5, Inr five_episodes) (enat 40, Inr morty)
            (enat 30, Inl (Error ''Error fetching from rick and morty api: Bad Gateway''))
            (0, Inr characters_page)) (request_for ''2'')) = enat 30
   \<and> isl (response (loader (stub_gateway (enat 5, Inr five_episodes) (enat 40, Inr morty)
            (enat 30, Inl (Error ''Error fetching from rick and morty api: Bad Gateway''))
            (0, Inr characters_page)) (request_for ''2'')))"
proof -
  let ?bad = "stub_gateway (enat 5, Inr five_episodes) (enat 40, Inr morty)
            (enat 30, Inl (Error ''Error fetching from rick and morty api: Bad Gateway''))
            (0, Inr characters_page)"
  let ?good = "stub_gateway (enat 5, Inr five_episodes) (enat 40, Inr morty)
            (enat 90, Inr seven_places) (0, Inr characters_page)"
  have good: "snd (?good (character_call (request_for ''2''))) = Inr morty
      \<and> snd (?good locations_call) = Inr seven_places
      \<and> read_property morty ''character'' = Inr (property morty ''character'')
      \<and> read_property seven_places ''locations'' = Inr (property seven_places ''locations'')"
    by (simp add: stub_simps sample_reads)
  have bad: "snd (?bad (character_call (request_for ''2''))) = Inr morty
      \<and> snd (?bad locations_call)
          = Inl (Error ''Error fetching from rick and morty api: Bad Gateway'')"
    by (simp add: stub_simps)
  note g = C3_fan_out_fan_in [of "request_for ''2''" ?good]
  note b = C3_fan_out_fan_in [of "request_for ''2''" ?bad]
  from g good have
    "response (loader ?good (request_for ''2''))
       = Inr \<lparr>character = property morty ''character'',
              locations = property seven_places ''locations'',
              episodesPromise =
                \<lparr>settles_at = max (enat 2000) (fst (?good (episodes_call (request_for ''2'')))),
                 outcome = snd (?good (episodes_call (request_for ''2'')))\<rparr>\<rparr>
     \<and> returned_at (loader ?good (request_for ''2''))
       = max (fst (?good (character_call (request_for ''2'')))) (fst (?good locations_call))"
    by blast
  then have 1: "response (loader ?good (request_for ''2''))
       = Inr \<lparr>character = property morty ''character'',
              locations = property seven_places ''locations'',
              episodesPromise = \<lparr>settles_at = enat 2000, outcome = Inr five_episodes\<rparr>\<rparr>
     \<and> returned_at (loader ?good (request_for ''2'')) = enat 90"
    by (simp add: stub_simps max_def)
  from b bad have
    "response (loader ?bad (request_for ''2''))
       = Inl (Error ''Error fetching from rick and morty api: Bad Gateway'')
     \<and> returned_at (loader ?bad (request_for ''2'')) = fst (?bad locations_call)"
    by blast
  then have 2: "response (loader ?bad (request_for ''2''))
       = Inl (Error ''Error fetching from rick and morty api: Bad Gateway'')
     \<and> returned_at (loader ?bad (request_for ''2'')) = enat 30"
    by (simp add: stub_simps)
  from 1 2 show ?thesis by simp
qed

subsection \<open>C4: a failed deferred fetch stays in the episodes section\<close>

text \<open>
  Claim C4. Suppose the episodes fetch rejects. Whether the loader throws is the same
  as under any gateway that answers the critical fetches alike, whatever it answers to
  the episodes query; when the critical fetches deliver, the loader returns their data
  at the later of the two, with a handle that fails at the later of the floor and the
  rejection. In the result it returns, the rejection sits in the handle alone. Before
  the handle settles it is pending, the episodes section is the four placeholders, and
  a page that renders at all renders with them. From the instant it settles the handle
  is failed, the episodes section is the error element, and the same page renders with
  the error element as its episodes section and everything else unchanged. The error
  element is a signal of failure only: for every handle and instant the section is the
  error element exactly when the handle has failed, and never for a handle that is
  fulfilled.
\<close>

theorem C4_deferred_rejection_contained:
  assumes "snd (gw (episodes_call ps)) = Inl e"
  shows "(\<forall>gw'. (\<forall>c. doc c \<noteq> DEFERRED_CHARACTER_EPISODES_QUERY \<longrightarrow> gw' c = gw c) \<longrightarrow>
            isl (response (loader gw' ps)) = isl (response (loader gw ps)))
       \<and> (\<forall>c l ch ls.
            snd (gw (character_call ps)) = Inr c \<and> snd (gw locations_call) = Inr l
            \<and> read_property c ''character'' = Inr ch \<and> read_property l ''locations'' = Inr ls
            \<longrightarrow> (\<exists>d. response (loader gw ps) = Inr d \<and> character d = ch \<and> locations d = ls))
       \<and> (\<forall>d. response (loader gw ps) = Inr d \<longrightarrow>
              outcome (episodesPromise d) = Inl e
            \<and> (\<forall>t. state_at (episodesPromise d) t = Pending
                    \<or> state_at (episodesPromise d) t = Failed e)
            \<and> (\<forall>t. settles_at (episodesPromise d) \<le> t \<longrightarrow>
                    episodes_section (episodesPromise d) t = Inr ErrorElementView)
            \<and> (\<forall>t t0 pg. settles_at (episodesPromise d) \<le> t \<and> Character d t0 = Inr pg \<longrightarrow>
                    Character d t = Inr (pg\<lparr>episodes := ErrorElementView\<rparr>)))
       \<and> (\<forall>c l ch ls.
            snd (gw (character_call ps)) = Inr c \<and> snd (gw locations_call) = Inr l
            \<and> read_property c ''character'' = Inr ch \<and> read_property l ''locations'' = Inr ls
            \<longrightarrow> response (loader gw ps)
                  = Inr \<lparr>character = ch, locations = ls,
                         episodesPromise =
                           \<lparr>settles_at = max (enat 2000) (fst (gw (episodes_call ps))),
                            outcome = Inl e\<rparr>\<rparr>
                \<and> returned_at (loader gw ps)
                  = max (fst (gw (character_call ps))) (fst (gw locations_call)))
       \<and> (\<forall>d. response (loader gw ps) = Inr d \<longrightarrow>
              settles_at (episodesPromise d) = max (enat 2000) (fst (gw (episodes_call ps)))
            \<and> (\<forall>t. t < settles_at (episodesPromise d) \<longrightarrow>
                    state_at (episodesPromise d) t = Pending
                  \<and> episodes_section (episodesPromise d) t
                      = Inr (EpisodesGridView
                          [placeholder_li 0, placeholder_li 1, placeholder_li 2, placeholder_li 3]))
            \<and> (\<forall>t. settles_at (episodesPromise d) \<le> t \<longrightarrow>
                    state_at (episodesPromise d) t = Failed e)
            \<and> (\<forall>t t0 pg. t < settles_at (episodesPromise d) \<and> Character d t0 = Inr pg \<longrightarrow>
                    Character d t
                      = Inr (pg\<lparr>episodes := EpisodesGridView
                          [placeholder_li 0, placeholder_li 1, placeholder_li 2, placeholder_li 3]\<rparr>)))
       \<and> (\<forall>p t. (episodes_section p t = Inr ErrorElementView) = (\<exists>e'. state_at p t = Failed e'))
       \<and> (\<forall>p t data. outcome p = Inr data \<longrightarrow> episodes_section p t \<noteq> Inr ErrorElementView)"
proof (intro conjI allI impI)
  fix gw' assume "\<forall>c. doc c \<noteq> DEFERRED_CHARACTER_EPISODES_QUERY \<longrightarrow> gw' c = gw c"
  then show "isl (response (loader gw' ps)) = isl (response (loader gw ps))"
    by (rule loader_failure_cong)
next
  fix c l ch ls
  assume "snd (gw (character_call ps)) = Inr c \<and> snd (gw locations_call) = Inr l
            \<and> read_property c ''character'' = Inr ch \<and> read_property l ''locations'' = Inr ls"
  then show "\<exists>d. response (loader gw ps) = Inr d \<and> character d = ch \<and> locations d = ls"
    by (simp add: loader_succeeds(1))
next
  fix d assume d: "response (loader gw ps) = Inr d"
  show o: "outcome (episodesPromise d) = Inl e"
    using assms by (simp add: loader_episodesPromise [OF d] pMinDelay_def fetched_simps)
  show "state_at (episodesPromise d) t = Pending \<or> state_at (episodesPromise d) t = Failed e"
    for t
    using o by (simp add: state_at_def)
  show s: "episodes_section (episodesPromise d) t = Inr ErrorElementView"
    if "settles_at (episodesPromise d) \<le> t" for t
    using that o by (rule episodes_section_failed)
  show "Character d t = Inr (pg\<lparr>episodes := ErrorElementView\<rparr>)"
    if h: "settles_at (episodesPromise d) \<le> t \<and> Character d t0 = Inr pg" for t t0 pg
  proof -
    from h have "episodes_section (episodesPromise d) t = Inr ErrorElementView"
      using s by blast
    with h show ?thesis
      by (blast intro: Character_Inr_section)
  qed
next
  fix c l ch ls
  assume h: "snd (gw (character_call ps)) = Inr c \<and> snd (gw locations_call) = Inr l
            \<and> read_property c ''character'' = Inr ch \<and> read_property l ''locations'' = Inr ls"
  then show "response (loader gw ps)
                  = Inr \<lparr>character = ch, locations = ls,
                         episodesPromise =
                           \<lparr>settles_at = max (enat 2000) (fst (gw (episodes_call ps))),
                            outcome = Inl e\<rparr>\<rparr>"
    using assms by (simp add: loader_result_explicit)
  from h show "returned_at (loader gw ps)
                  = max (fst (gw (character_call ps))) (fst (gw locations_call))"
    by (simp add: loader_succeeds(2))
next
  fix d assume d: "response (loader gw ps) = Inr d"
  have o: "outcome (episodesPromise d) = Inl e"
    using assms by (simp add: loader_episodesPromise [OF d] pMinDelay_def fetched_simps)
  show "settles_at (episodesPromise d) = max (enat 2000) (fst (gw (episodes_call ps)))"
    by (simp add: loader_episodesPromise [OF d] pMinDelay_def fetched_simps max.commute)
  show "state_at (episodesPromise d) t = Pending"
    if "t < settles_at (episodesPromise d)" for t
    using that by (simp add: state_at_Pending_iff)
  show p: "episodes_section (episodesPromise d) t
             = Inr (EpisodesGridView
                 [placeholder_li 0, placeholder_li 1, placeholder_li 2, placeholder_li 3])"
    if "t < settles_at (episodesPromise d)" for t
    using that by (simp add: episodes_section_pending EpisodesGrid_fallback)
  show "state_at (episodesPromise d) t = Failed e"
    if "settles_at (episodesPromise d) \<le> t" for t
    using that o by (rule state_at_settled)
  show "Character d t
          = Inr (pg\<lparr>episodes := EpisodesGridView
              [placeholder_li 0, placeholder_li 1, placeholder_li 2, placeholder_li 3]\<rparr>)"
    if h: "t < settles_at (episodesPromise d) \<and> Character d t0 = Inr pg" for t t0 pg
  proof -
    from h have "episodes_section (episodesPromise d) t
             = Inr (EpisodesGridView
                 [placeholder_li 0, placeholder_li 1, placeholder_li 2, placeholder_li 3])"
      using p by blast
    with h show ?thesis
      by (blast intro: Character_Inr_section)
  qed
next
  fix p :: "json promise" and t
  show "(episodes_section p t = Inr ErrorElementView) = (\<exists>e'. state_at p t = Failed e')"
    by (rule episodes_section_error_iff)
next
  fix p :: "json promise" and t data
  assume "outcome p = Inr data"
  then show "episodes_section p t \<noteq> Inr ErrorElementView"
    by (simp add: episodes_section_error_iff state_at_def)
qed

text \<open>
  C4 at a gateway whose episodes fetch rejects after 5 ms while the critical fetches
  deliver: the loader returns Morty at 40 ms with a handle that fails at 2000 ms; the
  page renders with the placeholders at 1999 ms and with the error element at 2000 ms;
  a handle fulfilled with five episodes does not show the error element.
\<close>

theorem C4_deferred_rejection_contained_witness:
  "response (loader (stub_gateway
            (enat 5, Inl (Error ''Error fetching from rick and morty api: Bad Gateway''))
            (enat 40, Inr morty) (enat 30, Inr seven_places) (0, Inr characters_page))
          (request_for ''2''))
     = Inr \<lparr>character = property morty ''character'',
            locations = property seven_places ''locations'',
            episodesPromise =
              \<lparr>settles_at = enat 2000,
               outcome = Inl (Error ''Error fetching from rick and morty api: Bad Gateway'')\<rparr>\<rparr>
   \<and> returned_at (loader (stub_gateway
            (enat 5, Inl (Error ''Error fetching from rick and morty api: Bad Gateway''))
            (enat 40, Inr morty) (enat 30, Inr seven_places) (0, Inr characters_page))
          (request_for ''2'')) = enat 40
   \<and> Character \<lparr>character = property morty ''character'',
            locations = property seven_places ''locations'',
            episodesPromise =
              \<lparr>settles_at = enat 2000,
               outcome = Inl (Error ''Error fetching from rick and morty api: Bad Gateway'')\<rparr>\<rparr>
        (enat 1999)
     = Inr (morty_page (EpisodesGridView
          [placeholder_li 0, placeholder_li 1, placeholder_li 2, placeholder_li 3]))
   \<and> Character \<lparr>character = property morty ''character'',
            locations = property seven_places ''locations'',
            episodesPromise =
              \<lparr>settles_at = enat 2000,
               outcome = Inl (Error ''Error fetching from rick and morty api: Bad Gateway'')\<rparr>\<rparr>
        (enat 2000)
     = Inr (morty_page ErrorElementView)
   \<and> episodes_section \<lparr>settles_at = enat 2000, outcome = Inr five_episodes\<rparr> (enat 2000)
     \<noteq> Inr ErrorElementView"
proof -
  let ?err = "Error ''Error fetching from rick and morty api: Bad Gateway''"
  let ?gw = "stub_gateway (enat 5, Inl ?err)
            (enat 40, Inr morty) (enat 30, Inr seven_places) (0, Inr characters_page)"
  let ?d = "\<lparr>character = property morty ''character'',
            locations = property seven_places ''locations'',
            episodesPromise = \<lparr>settles_at = enat 2000, outcome = Inl ?err\<rparr>\<rparr>"
  have h: "snd (?gw (episodes_call (request_for ''2''))) = Inl ?err"
    by (simp add: stub_simps)
  have crit: "snd (?gw (character_call (request_for ''2''))) = Inr morty
      \<and> snd (?gw locations_call) = Inr seven_places
      \<and> read_property morty ''character'' = Inr (property morty ''character'')
      \<and> read_property seven_places ''locations'' = Inr (property seven_places ''locations'')"
    by (simp add: stub_simps sample_reads)
  note inst = C4_deferred_rejection_contained
      [where gw = ?gw and ps = "request_for ''2''" and e = ?err, OF h]
  from inst crit have
    "response (loader ?gw (request_for ''2''))
       = Inr \<lparr>character = property morty ''character'',
              locations = property seven_places ''locations'',
              episodesPromise =
                \<lparr>settles_at = max (enat 2000) (fst (?gw (episodes_call (request_for ''2'')))),
                 outcome = Inl ?err\<rparr>\<rparr>
     \<and> returned_at (loader ?gw (request_for ''2''))
       = max (fst (?gw (character_call (request_for ''2'')))) (fst (?gw locations_call))"
    by blast
  then have r: "response (loader ?gw (request_for ''2'')) = Inr ?d"
    and ra: "returned_at (loader ?gw (request_for ''2'')) = enat 40"
    by (simp_all add: stub_simps max_def)
  from inst r have
    pend: "\<forall>t t0 pg. t < settles_at (episodesPromise ?d) \<and> Character ?d t0 = Inr pg \<longrightarrow>
             Character ?d t
               = Inr (pg\<lparr>episodes := EpisodesGridView
                   [placeholder_li 0, placeholder_li 1, placeholder_li 2, placeholder_li 3]\<rparr>)"
    and fail: "\<forall>t t0 pg. settles_at (episodesPromise ?d) \<le> t \<and> Character ?d t0 = Inr pg \<longrightarrow>
             Character ?d t = Inr (pg\<lparr>episodes := ErrorElementView\<rparr>)"
    and sec0: "\<forall>t. t < settles_at (episodesPromise ?d) \<longrightarrow>
             state_at (episodesPromise ?d) t = Pending
           \<and> episodes_section (episodesPromise ?d) t
               = Inr (EpisodesGridView
                   [placeholder_li 0, placeholder_li 1, placeholder_li 2, placeholder_li 3])"
    and distinct: "\<forall>p t data. outcome p = Inr data \<longrightarrow>
             episodes_section p t \<noteq> Inr ErrorElementView"
    by blast+
  have z: "0 < settles_at (episodesPromise ?d)"
    by (simp add: zero_enat_def)
  with sec0 have "episodes_section (episodesPromise ?d) 0
       = Inr (EpisodesGridView
           [placeholder_li 0, placeholder_li 1, placeholder_li 2, placeholder_li 3])"
    by blast
  then have c0: "Character ?d 0
       = Inr (morty_page (EpisodesGridView
           [placeholder_li 0, placeholder_li 1, placeholder_li 2, placeholder_li 3]))"
    by (intro morty_page_renders) simp_all
  have "enat 1999 < settles_at (episodesPromise ?d)" by simp
  with pend c0 have c1: "Character ?d (enat 1999)
       = Inr (morty_page (EpisodesGridView
           [placeholder_li 0, placeholder_li 1, placeholder_li 2, placeholder_li 3]))"
    by (simp add: morty_page_def)
  have "settles_at (episodesPromise ?d) \<le> enat 2000" by simp
  with fail c0 have c2: "Character ?d (enat 2000) = Inr (morty_page ErrorElementView)"
    by (simp add: morty_page_def)
  from distinct have c3:
    "episodes_section \<lparr>settles_at = enat 2000, outcome = Inr five_episodes\<rparr> (enat 2000)
       \<noteq> Inr ErrorElementView"
    by simp
  from r ra c1 c2 c3 show ?thesis by simp
qed

subsection \<open>C5: an empty episodes list\<close>

text \<open>
  Claim C5, evaluated where the code departs from it. When the episodes fetch is
  fulfilled with a character whose episode list is the empty array, the render function
  does not show the \<^verbatim>\<open>NoEpisodes\<close> message: the empty array is truthy, so it is passed
  to \<^verbatim>\<open>EpisodesGrid\<close>, whose test on the length then falls back to the four
  placeholders, the very grid that was shown while the handle was pending.
\<close>

theorem C5_empty_list_shows_placeholders:
  "Await_children no_episodes
     = Inr (EpisodesGridView [placeholder_li 0, placeholder_li 1, placeholder_li 2, placeholder_li 3])
   \<and> episodes_section \<lparr>settles_at = enat 2000, outcome = Inr no_episodes\<rparr> (enat 2000)
     = Inr (EpisodesGridView [placeholder_li 0, placeholder_li 1, placeholder_li 2, placeholder_li 3])
   \<and> episodes_section \<lparr>settles_at = enat 2000, outcome = Inr no_episodes\<rparr> (enat 2000)
     = episodes_section \<lparr>settles_at = enat 2000, outcome = Inr no_episodes\<rparr> (enat 0)
   \<and> Await_children no_episodes \<noteq> Inr NoEpisodesView"
proof -
  have "optional_chain (optional_chain no_episodes ''character'') ''episode'' = JArr []"
    by (simp add: no_episodes_def optional_chain_def)
  then have a: "Await_children no_episodes
     = Inr (EpisodesGridView [placeholder_li 0, placeholder_li 1, placeholder_li 2, placeholder_li 3])"
    by (simp add: Await_children_array EpisodesGrid_empty EpisodesGrid_fallback)
  then show ?thesis
    by (simp add: episodes_section_resolved episodes_section_pending EpisodesGrid_fallback)
qed

subsection \<open>C6: four placeholders, at most four episodes\<close>

text \<open>
  Claim C6. Let the handle be fulfilled with a payload whose episode list is an array
  of \<open>N\<close> entries, none of them null or undefined. While the handle is pending the
  episodes section is a grid of exactly four placeholder entries (``Loading...'' on a
  grey ground). Once it is resolved and \<open>N > 0\<close>, the grid holds the first four
  entries of the list in their order, or all of them when there are fewer. At every
  instant and for every \<open>N\<close> the grid has at most four entries.
\<close>

theorem C6_placeholders_and_cap:
  assumes "outcome p = Inr data"
    and "optional_chain (optional_chain data ''character'') ''episode'' = JArr xs"
    and "\<forall>x\<in>set xs. \<not> nullish x"
  shows "(t < settles_at p \<longrightarrow>
            episodes_section p t =
              Inr (EpisodesGridView
                     [placeholder_li 0, placeholder_li 1, placeholder_li 2, placeholder_li 3]))
       \<and> (settles_at p \<le> t \<and> xs \<noteq> [] \<longrightarrow>
            episodes_section p t
              = Inr (EpisodesGridView (map li_of (List.enumerate 0 (take 4 xs)))))
       \<and> (\<exists>lis. episodes_section p t = Inr (EpisodesGridView lis) \<and> length lis \<le> 4)"
proof -
  have pending: "episodes_section p t =
      Inr (EpisodesGridView [placeholder_li 0, placeholder_li 1, placeholder_li 2, placeholder_li 3])"
    if "t < settles_at p"
    using that by (simp add: episodes_section_pending EpisodesGrid_fallback)
  have resolved: "episodes_section p t = EpisodesGrid (JArr xs)" if "settles_at p \<le> t"
    using that assms(1,2) by (simp add: episodes_section_resolved Await_children_array)
  have entries: "episodes_section p t
      = Inr (EpisodesGridView (map li_of (List.enumerate 0 (take 4 xs))))"
    if "settles_at p \<le> t" "xs \<noteq> []"
    using that resolved assms(3) by (simp add: EpisodesGrid_entries)
  have bound: "\<exists>lis. episodes_section p t = Inr (EpisodesGridView lis) \<and> length lis \<le> 4"
  proof (cases "t < settles_at p")
    case True
    then show ?thesis using pending by simp
  next
    case False
    then have le: "settles_at p \<le> t" by simp
    show ?thesis
    proof (cases "xs = []")
      case True
      then show ?thesis
        using resolved [OF le] by (simp add: EpisodesGrid_empty EpisodesGrid_fallback)
    next
      case False
      then show ?thesis using entries [OF le] by simp
    qed
  qed
  from pending entries bound show ?thesis by blast
qed

text \<open>
  C6 at a handle that resolves at 2000 ms with five episodes: four placeholders at
  1999 ms, the first four episodes at 2000 ms.
\<close>

theorem C6_placeholders_and_cap_witness:
  "episodes_section \<lparr>settles_at = enat 2000, outcome = Inr five_episodes\<rparr> (enat 1999)
     = Inr (EpisodesGridView [placeholder_li 0, placeholder_li 1, placeholder_li 2, placeholder_li 3])
   \<and> episodes_section \<lparr>settles_at = enat 2000, outcome = Inr five_episodes\<rparr> (enat 2000)
     = Inr (EpisodesGridView
         [\<lparr>li_key = (JStr ''1'', 0), backgroundColor = ''white'', li_text = JStr ''Pilot''\<rparr>,
          \<lparr>li_key = (JStr ''2'', 1), backgroundColor = ''white'', li_text = JStr ''Lawnmower Dog''\<rparr>,
          \<lparr>li_key = (JStr ''3'', 2), backgroundColor = ''white'', li_text = JStr ''Anatomy Park''\<rparr>,
          \<lparr>li_key = (JStr ''4'', 3), backgroundColor = ''white'',
            li_text = JStr ''M. Night Shaym-Aliens!''\<rparr>])"
proof -
  let ?p = "\<lparr>settles_at = enat 2000, outcome = Inr five_episodes\<rparr>"
  have ok: "\<forall>x\<in>set [episode ''1'' ''Pilot'', episode ''2'' ''Lawnmower Dog'',
             episode ''3'' ''Anatomy Park'', episode ''4'' ''M. Night Shaym-Aliens!'',
             episode ''5'' ''Meeseeks and Destroy'']. \<not> nullish x"
    by (simp add: episode_def)
  have o: "outcome ?p = Inr five_episodes" by simp
  show ?thesis
    using C6_placeholders_and_cap [OF o five_episodes_chain ok, of "enat 1999"]
      C6_placeholders_and_cap [OF o five_episodes_chain ok, of "enat 2000"]
    by (simp add: li_of_def episode_def enumerate_eq_zip eval_nat_numeral upt_rec)
qed

subsection \<open>C7: a request without an identifier\<close>

text \<open>
  Claim C7, as amended. The loader does not look at the identifier before it fetches:
  for every request, also one whose identifier is absent or empty, it issues the
  episodes query, the character query and the locations query at the instant it is
  entered, with the identifier passed on as it came. When it throws, it throws the
  rejection of a critical fetch, or the TypeError of reading a property of a null or
  undefined payload.
\<close>

theorem C7_no_validation:
  "map doc (issued (loader gw ps))
     = [DEFERRED_CHARACTER_EPISODES_QUERY, CHARACTER_QUERY, CHARACTER_LOCATIONS_QUERY]
   \<and> map variables (issued (loader gw ps))
     = [Some [(''id'', param ps ''id'')], Some [(''id'', param ps ''id'')], Some []]
   \<and> map issued_at (issued (loader gw ps)) = [0, 0, 0]
   \<and> (\<forall>e. response (loader gw ps) = Inl e \<longrightarrow>
          snd (gw (character_call ps)) = Inl e \<or> snd (gw locations_call) = Inl e \<or> e = TypeError)"
proof -
  have "snd (gw (character_call ps)) = Inl e \<or> snd (gw locations_call) = Inl e \<or> e = TypeError"
    if "response (loader gw ps) = Inl e" for e
  proof (cases "snd (gw (character_call ps))")
    case (Inl a)
    then show ?thesis
      using that
      by (cases "snd (gw locations_call)")
         (auto simp: loader_unfolded Promise_all_def fetched_simps split: if_splits)
  next
    case c: (Inr c)
    show ?thesis
    proof (cases "snd (gw locations_call)")
      case (Inl a)
      then show ?thesis
        using that c by (simp add: loader_unfolded Promise_all_def fetched_simps)
    next
      case (Inr l)
      then show ?thesis
        using that c
        by (auto simp: loader_unfolded Promise_all_def fetched_simps read_property_def
            split: if_splits)
    qed
  qed
  then show ?thesis
    by (simp add: loader_unfolded episodes_call_def character_call_def locations_call_def)
qed

text \<open>
  C7 at a request without an identifier and a gateway that rejects the character
  query: the three queries are issued with an undefined \<^verbatim>\<open>id\<close>, and the loader throws
  the gateway's error.
\<close>

theorem C7_no_validation_witness:
  "response (loader (stub_gateway (enat 5, Inr five_episodes)
         (enat 40, Inl (Error ''Error fetching from rick and morty api: Bad Request''))
         (enat 30, Inr seven_places) (0, Inr characters_page)) Map.empty)
     = Inl (Error ''Error fetching from rick and morty api: Bad Request'')
   \<and> map variables (issued (loader (stub_gateway (enat 5, Inr five_episodes)
         (enat 40, Inl (Error ''Error fetching from rick and morty api: Bad Request''))
         (enat 30, Inr seven_places) (0, Inr characters_page)) Map.empty))
     = [Some [(''id'', JUndefined)], Some [(''id'', JUndefined)], Some []]"
proof -
  let ?gw = "stub_gateway (enat 5, Inr five_episodes)
         (enat 40, Inl (Error ''Error fetching from rick and morty api: Bad Request''))
         (enat 30, Inr seven_places) (0, Inr characters_page)"
  have e: "response (loader ?gw Map.empty)
             = Inl (Error ''Error fetching from rick and morty api: Bad Request'')"
    by (simp add: loader_unfolded Promise_all_def fetched_simps stub_simps)
  from C7_no_validation [of ?gw Map.empty]
  have "map variables (issued (loader ?gw Map.empty))
          = [Some [(''id'', JUndefined)], Some [(''id'', JUndefined)], Some []]
        \<and> (snd (?gw (character_call Map.empty))
              = Inl (Error ''Error fetching from rick and morty api: Bad Request'')
            \<or> snd (?gw locations_call)
              = Inl (Error ''Error fetching from rick and morty api: Bad Request'')
            \<or> Error ''Error fetching from rick and morty api: Bad Request'' = TypeError)"
    using e by (simp add: param_def)
  with e show ?thesis by simp
qed

text \<open>
  Claim C7 as stated fails: for a request without an identifier, and for one whose
  identifier is the empty string, the loader issues all three queries, and with a
  gateway that answers them it returns a result instead of throwing.
\<close>

theorem C7_absent_id_is_fetched:
  "issued (loader (stub_gateway (enat 5, Inr five_episodes) (enat 40, Inr morty)
         (enat 30, Inr seven_places) (0, Inr characters_page)) Map.empty)
     = [\<lparr>issued_at = 0, doc = DEFERRED_CHARACTER_EPISODES_QUERY,
          variables = Some [(''id'', JUndefined)], cache = CacheNone\<rparr>,
        \<lparr>issued_at = 0, doc = CHARACTER_QUERY,
          variables = Some [(''id'', JUndefined)], cache = CacheNone\<rparr>,
        \<lparr>issued_at = 0, doc = CHARACTER_LOCATIONS_QUERY,
          variables = Some [], cache = CacheNone\<rparr>]
   \<and> response (loader (stub_gateway (enat 5, Inr five_episodes) (enat 40, Inr morty)
         (enat 30, Inr seven_places) (0, Inr characters_page)) Map.empty)
     = Inr \<lparr>character = property morty ''character'',
            locations = property seven_places ''locations'',
            episodesPromise = \<lparr>settles_at = enat 2000, outcome = Inr five_episodes\<rparr>\<rparr>
   \<and> map variables (issued (loader (stub_gateway (enat 5, Inr five_episodes) (enat 40, Inr morty)
         (enat 30, Inr seven_places) (0, Inr characters_page)) (request_for [])))
     = [Some [(''id'', JStr [])], Some [(''id'', JStr [])], Some []]
   \<and> \<not> isl (response (loader (stub_gateway (enat 5, Inr five_episodes) (enat 40, Inr morty)
         (enat 30, Inr seven_places) (0, Inr characters_page)) (request_for [])))"
  by (simp add: loader_unfolded Promise_all_def pMinDelay_def fetched_def episodes_call_def
      character_call_def locations_call_def stub_gateway_def read_property_def morty_def
      seven_places_def max_def param_def request_for_def)

subsection \<open>C8: an identifier that names nobody\<close>

text \<open>
  Claim C8, as amended. When the character fetch is fulfilled with a null or undefined
  character and the locations fetch delivers, the loader does not throw: it returns a
  result whose character is that null. No page is rendered from it: at every instant
  the route component throws a TypeError, on reading the name of the character.
\<close>

theorem C8_null_entity_fails_at_render:
  assumes "snd (gw (character_call ps)) = Inr c" and "read_property c ''character'' = Inr ch"
    and "nullish ch"
    and "snd (gw locations_call) = Inr l" and "read_property l ''locations'' = Inr ls"
  shows "\<exists>d. response (loader gw ps) = Inr d \<and> character d = ch \<and> locations d = ls
           \<and> (\<forall>t. Character d t = Inl TypeError)"
proof -
  let ?d = "\<lparr>character = ch, locations = ls,
             episodesPromise = pMinDelay (fetched gw (episodes_call ps)) 2000 0\<rparr>"
  have "response (loader gw ps) = Inr ?d"
    using assms(1,4,2,5) by (rule loader_succeeds(1))
  moreover have "Character ?d t = Inl TypeError" for t
    using assms(3) by (simp add: Character_null)
  ultimately show ?thesis by (intro exI [of _ ?d]) simp
qed

text \<open>
  C8 at the request for \<^verbatim>\<open>999999\<close> and a gateway that answers the character query
  with a null character.
\<close>

theorem C8_null_entity_fails_at_render_witness:
  "\<exists>d. response (loader (stub_gateway (enat 5, Inr nobody) (enat 40, Inr nobody)
         (enat 30, Inr seven_places) (0, Inr characters_page)) (request_for ''999999'')) = Inr d
      \<and> character d = JNull \<and> Character d (enat 40) = Inl TypeError"
proof -
  let ?gw = "stub_gateway (enat 5, Inr nobody) (enat 40, Inr nobody)
         (enat 30, Inr seven_places) (0, Inr characters_page)"
  have h: "snd (?gw (character_call (request_for ''999999''))) = Inr nobody"
    "snd (?gw locations_call) = Inr seven_places"
    by (simp_all add: stub_simps)
  have n: "nullish JNull" by simp
  from C8_null_entity_fails_at_render [OF h(1) sample_reads(2) n h(2) sample_reads(3)]
  show ?thesis by blast
qed

text \<open>
  Claim C8 as stated fails: for the request for \<^verbatim>\<open>999999\<close>, answered with a null
  character, the loader returns a result (with a null character) and does not throw.
\<close>

theorem C8_null_character_is_returned:
  "response (loader (stub_gateway (enat 5, Inr nobody) (enat 40, Inr nobody)
         (enat 30, Inr seven_places) (0, Inr characters_page)) (request_for ''999999''))
     = Inr \<lparr>character = JNull,
            locations = property seven_places ''locations'',
            episodesPromise = \<lparr>settles_at = enat 2000, outcome = Inr nobody\<rparr>\<rparr>"
  by (simp add: loader_unfolded Promise_all_def pMinDelay_def fetched_def episodes_call_def
      character_call_def locations_call_def stub_gateway_def read_property_def nobody_def
      seven_places_def max_def)

subsection \<open>C9: cache policies\<close>

text \<open>
  Claim C9, as amended. Each of the three fetches of the detail loader uses the
  no-cache policy: the character fetch and the episodes fetch, which carry the
  identifier, and also the locations fetch, which carries no variable. The one fetch of
  the listing loader uses the short-lived policy.
\<close>

theorem C9_cache_policies:
  "map (\<lambda>c. (doc c, cache c)) (issued (loader gw ps))
     = [(DEFERRED_CHARACTER_EPISODES_QUERY, CacheNone), (CHARACTER_QUERY, CacheNone),
        (CHARACTER_LOCATIONS_QUERY, CacheNone)]
   \<and> map (\<lambda>c. (doc c, cache c)) (issued (loader_index gw)) = [(CHARACTERS_QUERY, CacheShort)]"
  by (simp add: loader_unfolded loader_index_issued episodes_call_def character_call_def
      locations_call_def)

text \<open>
  Claim C9 as stated fails on the locations fetch: it is the same call for the
  requests for \<^verbatim>\<open>2\<close> and for \<^verbatim>\<open>1\<close>, with no variable, and it uses the no-cache policy.
\<close>

theorem C9_locations_fetch_is_uncached:
  "issued (loader (stub_gateway (enat 5, Inr five_episodes) (enat 40, Inr morty)
         (enat 30, Inr seven_places) (0, Inr characters_page)) (request_for ''2'')) ! 2
     = \<lparr>issued_at = 0, doc = CHARACTER_LOCATIONS_QUERY, variables = Some [], cache = CacheNone\<rparr>
   \<and> issued (loader (stub_gateway (enat 5, Inr five_episodes) (enat 40, Inr morty)
         (enat 30, Inr seven_places) (0, Inr characters_page)) (request_for ''1'')) ! 2
     = \<lparr>issued_at = 0, doc = CHARACTER_LOCATIONS_QUERY, variables = Some [], cache = CacheNone\<rparr>"
  by (simp add: loader_unfolded locations_call_def)

subsection \<open>C10: six locations\<close>

text \<open>
  Claim C10. For every array of locations, none of them null or undefined, the
  \<^verbatim>\<open>Locations\<close> component renders the first six in their order (all of them when
  there are fewer) and nothing else; so does every page that the route component renders
  from a result whose locations hold that array.
\<close>

theorem C10_first_six_locations:
  assumes "\<forall>x\<in>set xs. \<not> nullish x"
  shows "Locations (JArr xs) = Inr (map div_of (take 6 xs))
       \<and> length (map div_of (take 6 xs)) \<le> 6
       \<and> (\<forall>d t pg. read_property (locations d) ''results'' = Inr (JArr xs)
             \<and> Character d t = Inr pg \<longrightarrow> locations_divs pg = map div_of (take 6 xs))"
proof -
  have "\<forall>x\<in>set (take 6 xs). \<not> nullish x"
    using assms by (meson in_set_takeD)
  then have L: "Locations (JArr xs) = Inr (map div_of (take 6 xs))"
    by (simp add: Locations_def slice_map_def map_index_location)
  have "locations_divs pg = map div_of (take 6 xs)"
    if "read_property (locations d) ''results'' = Inr (JArr xs)" "Character d t = Inr pg"
    for d t pg
    using that L by (auto simp: Character_def and_then_Inr_iff)
  with L show ?thesis by auto
qed

text \<open>C10 at a list of seven locations: the seventh is not rendered.\<close>

theorem C10_first_six_locations_witness:
  "Locations (property (property seven_places ''locations'') ''results'')
     = Inr [div_of (place ''Earth''), div_of (place ''Abadango''), div_of (place ''Citadel of Ricks''),
            div_of (place ''Worldender''), div_of (place ''Anatomy Park''),
            div_of (place ''Interdimensional Cable'')]"
proof -
  let ?xs = "[place ''Earth'', place ''Abadango'', place ''Citadel of Ricks'',
              place ''Worldender'', place ''Anatomy Park'', place ''Interdimensional Cable'',
              place ''Immortality Field Resort'']"
  have ok: "\<forall>x\<in>set ?xs. \<not> nullish x" by (simp add: place_def)
  show ?thesis
    using C10_first_six_locations [OF ok]
    by (simp add: seven_places_def)
qed

end
